theory Spec2Isabelle
  imports Main
begin

section \<open>Python values and exceptions\<close>

text \<open>
  The values that reach \<^verbatim>\<open>index/config.py\<close>: what the JSON and YAML decoders return, the
  literals of \<^verbatim>\<open>setdefault\<close>, and the \<^verbatim>\<open>UpperDict\<close> objects the module builds itself.
  \<open>VDict\<close> is a plain Python \<^verbatim>\<open>dict\<close> (the only values for which
  \<^verbatim>\<open>isinstance(value, dict)\<close> holds), \<open>VNode\<close> is an \<^verbatim>\<open>UpperDict\<close> instance given by the
  contents of its private \<^verbatim>\<open>__dict\<close>. A dict is an association list in insertion order with
  distinct keys; keys are strings. Strings are lists of 8-bit characters and stand for
  ASCII text; floats are not represented.
\<close>

datatype pyval =
    VNone
  | VEllipsis
  | VBool bool
  | VInt int
  | VStr string
  | VList "pyval list"
  | VTuple "pyval list"
  | VDict "(string \<times> pyval) list"
  | VNode "(string \<times> pyval) list"

type_synonym pydict = "(string \<times> pyval) list"

datatype pyerror =
    KeyError
  | TypeError
  | ValueError
  | AttributeError
  | OSError
  | DecodeError
  | ConfigError string
  | ConfigFileError string

fun is_dict :: "pyval \<Rightarrow> bool" where
  "is_dict (VDict d) = True"
| "is_dict v = False"

fun is_node :: "pyval \<Rightarrow> bool" where
  "is_node (VNode c) = True"
| "is_node v = False"

section \<open>Strings\<close>

text \<open>\<^verbatim>\<open>str.upper\<close> on ASCII text: the letters a..z move to A..Z, every other character stays.\<close>

definition is_lower :: "char \<Rightarrow> bool" where
  "is_lower c = (97 \<le> (of_char c :: nat) \<and> (of_char c :: nat) \<le> 122)"

definition is_upper :: "char \<Rightarrow> bool" where
  "is_upper c = (65 \<le> (of_char c :: nat) \<and> (of_char c :: nat) \<le> 90)"

definition upper_char :: "char \<Rightarrow> char" where
  "upper_char c = (if is_lower c then char_of ((of_char c :: nat) - 32) else c)"

definition upper :: "string \<Rightarrow> string" where
  "upper s = map upper_char s"

text \<open>
  Two characters are the same letter when they are equal or when one is the lower-case and
  the other the upper-case form of one letter; two strings differ only in letter case when
  they have the same length and agree in this sense at every position.
\<close>

definition same_letter :: "char \<Rightarrow> char \<Rightarrow> bool" where
  "same_letter c d =
     (c = d
      \<or> (is_lower c \<and> is_upper d \<and> (of_char c :: nat) = of_char d + 32)
      \<or> (is_upper c \<and> is_lower d \<and> (of_char d :: nat) = of_char c + 32))"

definition case_variant :: "string \<Rightarrow> string \<Rightarrow> bool" where
  "case_variant k k' = list_all2 same_letter k k'"

section \<open>Dictionaries\<close>

text \<open>
  \<^verbatim>\<open>d[k] = v\<close> on a plain dict keeps the position of a key that is present and appends a
  new key at the end; \<^verbatim>\<open>d[k]\<close> is \<open>map_of d k\<close>, with \<open>None\<close> for the \<^verbatim>\<open>KeyError\<close>.
\<close>

fun dict_set :: "pydict \<Rightarrow> string \<Rightarrow> pyval \<Rightarrow> pydict" where
  "dict_set [] k v = [(k, v)]"
| "dict_set ((j, w) # rest) k v =
     (if j = k then (j, v) # rest else (j, w) # dict_set rest k v)"

section \<open>UpperDict\<close>

text \<open>
  \<^verbatim>\<open>UpperDict.__setitem__\<close> mutates the object; the model returns the contents afterwards
  together with the exception raised, if any. A failed call keeps what it has already
  written, as the mutation in place does.

  \<open>UpperDict_init_loop\<close> is the loop of \<^verbatim>\<open>UpperDict.__init__\<close>
  (\<^verbatim>\<open>for key in data.keys(): self[key] = data[key]\<close>), \<open>merge_loop\<close> is the loop of the merge
  branch (\<^verbatim>\<open>for k, v in value.items(): self.__dict[key][k.upper()] = v\<close>), run on the object
  stored at the key, and \<open>item_assign\<close> is the item assignment \<^verbatim>\<open>obj[k] = v\<close> with a string
  index, dispatched on the type of the object: an \<^verbatim>\<open>UpperDict\<close> runs its own
  \<^verbatim>\<open>__setitem__\<close>, a plain dict stores, anything else raises \<^verbatim>\<open>TypeError\<close>.
\<close>

fun UpperDict_setitem :: "pydict \<Rightarrow> string \<Rightarrow> pyval \<Rightarrow> pydict \<times> pyerror option"
and UpperDict_init_loop :: "pydict \<Rightarrow> pydict \<Rightarrow> pydict \<times> pyerror option"
and merge_loop :: "pyval \<Rightarrow> pydict \<Rightarrow> pyval \<times> pyerror option"
and item_assign :: "pyval \<Rightarrow> string \<Rightarrow> pyval \<Rightarrow> pyval \<times> pyerror option"
where
  "UpperDict_setitem self key (VDict d) =
     (case map_of self (upper key) of
        Some stored \<Rightarrow>
          (case merge_loop stored d of
             (stored', e) \<Rightarrow> (dict_set self (upper key) stored', e))
      | None \<Rightarrow>
          (case UpperDict_init_loop [] d of
             (child, None) \<Rightarrow> (dict_set self (upper key) (VNode child), None)
           | (child, Some e) \<Rightarrow> (self, Some e)))"
| "UpperDict_setitem self key v = (dict_set self (upper key) v, None)"
| "UpperDict_init_loop self [] = (self, None)"
| "UpperDict_init_loop self ((k, v) # rest) =
     (case UpperDict_setitem self k v of
        (self', None) \<Rightarrow> UpperDict_init_loop self' rest
      | (self', Some e) \<Rightarrow> (self', Some e))"
| "merge_loop stored [] = (stored, None)"
| "merge_loop stored ((k, v) # rest) =
     (case item_assign stored (upper k) v of
        (stored', None) \<Rightarrow> merge_loop stored' rest
      | (stored', Some e) \<Rightarrow> (stored', Some e))"
| "item_assign (VNode c) k v =
     (case UpperDict_setitem c k v of (c', e) \<Rightarrow> (VNode c', e))"
| "item_assign (VDict d) k v = (VDict (dict_set d k v), None)"
| "item_assign x k v = (x, Some TypeError)"

definition UpperDict_init :: "pydict \<Rightarrow> pydict \<times> pyerror option" where
  "UpperDict_init data = UpperDict_init_loop [] data"

definition UpperDict_getitem :: "pydict \<Rightarrow> string \<Rightarrow> pyerror + pyval" where
  "UpperDict_getitem self key =
     (case map_of self (upper key) of None \<Rightarrow> Inl KeyError | Some v \<Rightarrow> Inr v)"

definition UpperDict_get :: "pydict \<Rightarrow> string \<Rightarrow> pyval \<Rightarrow> pyerror + pyval" where
  "UpperDict_get self key dflt =
     (case UpperDict_getitem self key of
        Inl KeyError \<Rightarrow> Inr dflt
      | Inl e \<Rightarrow> Inl e
      | Inr v \<Rightarrow> Inr v)"

section \<open>Built-in conversions\<close>

text \<open>
  \<^verbatim>\<open>bool(x)\<close>, \<^verbatim>\<open>int(x)\<close> and \<^verbatim>\<open>list(x)\<close> on the values above. An \<^verbatim>\<open>UpperDict\<close> defines neither
  \<^verbatim>\<open>__bool__\<close> nor \<^verbatim>\<open>__len__\<close>, so it is true; it has \<^verbatim>\<open>__getitem__\<close> and no \<^verbatim>\<open>__iter__\<close>, so
  \<^verbatim>\<open>list\<close> asks it for item \<^verbatim>\<open>0\<close> and \<^verbatim>\<open>key.upper()\<close> raises \<^verbatim>\<open>AttributeError\<close> on the integer.
\<close>

fun py_bool :: "pyval \<Rightarrow> bool" where
  "py_bool VNone = False"
| "py_bool VEllipsis = True"
| "py_bool (VBool b) = b"
| "py_bool (VInt n) = (n \<noteq> 0)"
| "py_bool (VStr s) = (s \<noteq> [])"
| "py_bool (VList xs) = (xs \<noteq> [])"
| "py_bool (VTuple xs) = (xs \<noteq> [])"
| "py_bool (VDict d) = (d \<noteq> [])"
| "py_bool (VNode c) = True"

text \<open>
  \<^verbatim>\<open>int(s)\<close> on a string: surrounding white space is dropped, one sign may lead, and the
  rest is decimal digits, with single underscores allowed between digits. Everything else
  is a \<^verbatim>\<open>ValueError\<close>. (The length limit that Python 3.11 introduced for such strings is not
  modelled.)
\<close>

definition is_digit :: "char \<Rightarrow> bool" where
  "is_digit c = (48 \<le> (of_char c :: nat) \<and> (of_char c :: nat) \<le> 57)"

definition digit_val :: "char \<Rightarrow> nat" where
  "digit_val c = of_char c - 48"

definition is_space :: "char \<Rightarrow> bool" where
  "is_space c = ((9 \<le> (of_char c :: nat) \<and> (of_char c :: nat) \<le> 13)
               \<or> (28 \<le> (of_char c :: nat) \<and> (of_char c :: nat) \<le> 32))"

definition strip :: "string \<Rightarrow> string" where
  "strip s = rev (dropWhile is_space (rev (dropWhile is_space s)))"

fun parse_digits :: "nat \<Rightarrow> string \<Rightarrow> nat option" where
  "parse_digits acc [] = Some acc"
| "parse_digits acc [c] = (if is_digit c then Some (10 * acc + digit_val c) else None)"
| "parse_digits acc (c # d # cs) =
     (if is_digit c then parse_digits (10 * acc + digit_val c) (d # cs)
      else if c = CHR ''_'' \<and> is_digit d then parse_digits (10 * acc + digit_val d) cs
      else None)"

definition parse_nat :: "string \<Rightarrow> nat option" where
  "parse_nat s =
     (case s of
        [] \<Rightarrow> None
      | c # cs \<Rightarrow> if is_digit c then parse_digits (digit_val c) cs else None)"

definition int_of_str :: "string \<Rightarrow> int option" where
  "int_of_str s =
     (case strip s of
        [] \<Rightarrow> None
      | c # cs \<Rightarrow>
          if c = CHR ''-'' then map_option (\<lambda>n. - int n) (parse_nat cs)
          else if c = CHR ''+'' then map_option int (parse_nat cs)
          else map_option int (parse_nat (c # cs)))"

fun py_int :: "pyval \<Rightarrow> pyerror + int" where
  "py_int (VInt n) = Inr n"
| "py_int (VBool b) = Inr (if b then 1 else 0)"
| "py_int (VStr s) = (case int_of_str s of None \<Rightarrow> Inl ValueError | Some n \<Rightarrow> Inr n)"
| "py_int v = Inl TypeError"

fun py_list :: "pyval \<Rightarrow> pyerror + pyval list" where
  "py_list (VList xs) = Inr xs"
| "py_list (VTuple xs) = Inr xs"
| "py_list (VStr s) = Inr (map (\<lambda>c. VStr [c]) s)"
| "py_list (VDict d) = Inr (map (\<lambda>kv. VStr (fst kv)) d)"
| "py_list (VNode c) = Inl AttributeError"
| "py_list v = Inl TypeError"

section \<open>The environment overlay\<close>

text \<open>
  \<^verbatim>\<open>os.environ\<close> is a map from names to strings; \<^verbatim>\<open>os.environ.get(name)\<close> is \<^verbatim>\<open>None\<close> for a
  name that is not set, and the \<^verbatim>\<open>if\<close> of the source is taken for a string that is set and
  not empty.
\<close>

definition environ_truthy :: "string option \<Rightarrow> bool" where
  "environ_truthy x = (case x of None \<Rightarrow> False | Some s \<Rightarrow> s \<noteq> [])"

definition import_environ :: "(string \<rightharpoonup> string) \<Rightarrow> pydict" where
  "import_environ environ =
     (let result = [];
          result = (if environ_truthy (environ ''INDEX_DEBUG'')
                    then dict_set result ''debug''
                           (VBool (environ ''INDEX_DEBUG'' \<in> {Some ''on'', Some ''True''}))
                    else result);
          result = (if environ_truthy (environ ''INDEX_ENV'')
                    then dict_set result ''env''
                           (case environ ''INDEX_ENV'' of None \<Rightarrow> VNone | Some s \<Rightarrow> VStr s)
                    else result)
      in result)"

section \<open>Config\<close>

text \<open>
  A \<^verbatim>\<open>Config\<close> is an \<^verbatim>\<open>UpperDict\<close> whose \<^verbatim>\<open>__setitem__\<close> converts three keys before it
  hands over to \<^verbatim>\<open>UpperDict.__setitem__\<close>. A conversion that raises leaves the object as it
  was: nothing has been stored yet.
\<close>

definition Config_setitem :: "pydict \<Rightarrow> string \<Rightarrow> pyval \<Rightarrow> pydict \<times> pyerror option" where
  "Config_setitem self key val =
     (let key = upper key in
      if key = ''DEBUG'' then UpperDict_setitem self key (VBool (py_bool val))
      else if key = ''PORT'' then
        (case py_int val of
           Inl e \<Rightarrow> (self, Some e)
         | Inr n \<Rightarrow> UpperDict_setitem self key (VInt n))
      else if key = ''ALLOWED_HOSTS'' then
        (case py_list val of
           Inl e \<Rightarrow> (self, Some e)
         | Inr xs \<Rightarrow> UpperDict_setitem self key (VList (xs @ [VStr ''testserver''])))
      else UpperDict_setitem self key val)"

text \<open>\<^verbatim>\<open>Config.update\<close>: \<^verbatim>\<open>for key in data.keys(): self[key] = data[key]\<close>.\<close>

fun Config_update :: "pydict \<Rightarrow> pydict \<Rightarrow> pydict \<times> pyerror option" where
  "Config_update self [] = (self, None)"
| "Config_update self ((k, v) # rest) =
     (case Config_setitem self k v of
        (self', None) \<Rightarrow> Config_update self' rest
      | (self', Some e) \<Rightarrow> (self', Some e))"

text \<open>\<^verbatim>\<open>Config.setdefault\<close> is sixteen item assignments in a row, in this order.\<close>

definition defaults :: pydict where
  "defaults =
     [(''env'', VStr ''dev''),
      (''debug'', VBool False),
      (''host'', VStr ''127.0.0.1''),
      (''port'', VInt 4190),
      (''log_level'', VStr ''info''),
      (''hotreload'', VBool True),
      (''allow_underline'', VBool False),
      (''force_ssl'', VBool False),
      (''allowed_hosts'', VList [VStr ''*'']),
      (''cors_allow_origins'', VTuple []),
      (''cors_allow_methods'', VTuple [VStr ''GET'']),
      (''cors_allow_headers'', VTuple []),
      (''cors_allow_credentials'', VBool False),
      (''cors_allow_origin_regex'', VNone),
      (''cors_expose_headers'', VTuple []),
      (''cors_max_age'', VInt 600)]"

definition setdefault :: "pydict \<Rightarrow> pydict \<times> pyerror option" where
  "setdefault self = Config_update self defaults"

subsection \<open>Loading the configuration file\<close>

text \<open>
  The working directory is a map from file names to what decoding the file gives: \<open>None\<close>
  when \<^verbatim>\<open>os.path.exists\<close> is false, \<open>Some (Inl e)\<close> when opening or decoding the file
  raises \<open>e\<close>, \<open>Some (Inr data)\<close> when \<^verbatim>\<open>json.load\<close> or \<^verbatim>\<open>yaml.safe_load\<close> (chosen by the
  extension; each candidate has one of the three extensions) returns \<open>data\<close>.
  \<open>find_file\<close> is the \<^verbatim>\<open>for\<close> loop of \<^verbatim>\<open>import_from_file\<close>, with the variable \<^verbatim>\<open>filename\<close> and
  the warnings issued so far as accumulators.
\<close>

type_synonym directory = "string \<rightharpoonup> (pyerror + pyval)"

definition candidates :: "string list" where
  "candidates = [''config.json'', ''index.json'', ''index.yaml'', ''index.yml'']"

definition conflict_message :: "string \<Rightarrow> string \<Rightarrow> string" where
  "conflict_message filename filename' =
     [CHR 0x60] @ filename @ [CHR 0x60] @ '' and '' @ [CHR 0x60] @ filename' @ [CHR 0x60]
     @ '' cannot be used at the same project.''"

definition deprecation_message :: string where
  "deprecation_message =
     ''Please use '' @ [CHR 0x60] @ ''index.json'' @ [CHR 0x60] @ '' or'' @ [CHR 0x60]
     @ '' index.yaml'' @ [CHR 0x60] @ '', '' @ [CHR 0x60] @ ''config.json'' @ [CHR 0x60]
     @ '' will be deprecated in 0.8.''"

fun find_file ::
  "(string \<Rightarrow> bool) \<Rightarrow> string list \<Rightarrow> string option \<Rightarrow> string list
   \<Rightarrow> string option \<times> string list \<times> pyerror option" where
  "find_file exists [] filename warns = (filename, warns, None)"
| "find_file exists (f # fs) filename warns =
     (if exists f then
        (case filename of
           Some g \<Rightarrow> (filename, warns, Some (ConfigFileError (conflict_message g f)))
         | None \<Rightarrow>
             find_file exists fs (Some f)
               (if f = ''config.json'' then warns @ [deprecation_message] else warns))
      else find_file exists fs filename warns)"

definition import_from_file ::
  "pydict \<Rightarrow> directory \<Rightarrow> pydict \<times> string list \<times> pyerror option" where
  "import_from_file self dir =
     (case find_file (\<lambda>f. dir f \<noteq> None) candidates None [] of
        (_, warns, Some e) \<Rightarrow> (self, warns, Some e)
      | (None, warns, None) \<Rightarrow> (self, warns, None)
      | (Some filename, warns, None) \<Rightarrow>
          (case dir filename of
             None \<Rightarrow> (self, warns, Some OSError)
           | Some (Inl e) \<Rightarrow> (self, warns, Some e)
           | Some (Inr (VDict data)) \<Rightarrow>
               (case Config_update self data of (self', e) \<Rightarrow> (self', warns, e))
           | Some (Inr _) \<Rightarrow> (self, warns, Some (ConfigError ''config must be a dictionary.''))))"

text \<open>
  \<^verbatim>\<open>Config.__init__\<close>: the empty \<^verbatim>\<open>UpperDict\<close>, the defaults, the file, the environment. An
  exception ends the construction where it is raised.
\<close>

definition Config_init ::
  "directory \<Rightarrow> (string \<rightharpoonup> string) \<Rightarrow> pydict \<times> string list \<times> pyerror option" where
  "Config_init dir environ =
     (case UpperDict_init [] of
        (self, Some e) \<Rightarrow> (self, [], Some e)
      | (self, None) \<Rightarrow>
          (case setdefault self of
             (self, Some e) \<Rightarrow> (self, [], Some e)
           | (self, None) \<Rightarrow>
               (case import_from_file self dir of
                  (self, warns, Some e) \<Rightarrow> (self, warns, Some e)
                | (self, warns, None) \<Rightarrow>
                    (case Config_update self (import_environ environ) of
                       (self, e) \<Rightarrow> (self, warns, e)))))"

subsection \<open>Reading\<close>

text \<open>
  \<^verbatim>\<open>Config.get\<close> reads \<^verbatim>\<open>self["env"]\<close> and uses the value it finds as a key of the root.
  \<open>py_upper\<close> is \<^verbatim>\<open>x.upper()\<close> on that value: a string folds; an \<^verbatim>\<open>UpperDict\<close> answers the
  attribute through \<^verbatim>\<open>__getattr__\<close>, which either finds no key \<^verbatim>\<open>UPPER\<close>
  (\<^verbatim>\<open>AttributeError\<close>) or finds a value that cannot be called (\<^verbatim>\<open>TypeError\<close>); every other
  value has no such attribute. \<open>py_get\<close> is \<^verbatim>\<open>env.get(key, None)\<close> on whatever was found
  under the environment's name: an \<^verbatim>\<open>UpperDict\<close>, the plain dict \<^verbatim>\<open>{}\<close> that stands for
  "no such key", or an object without a \<^verbatim>\<open>get\<close>.
\<close>

fun py_upper :: "pyval \<Rightarrow> pyerror + string" where
  "py_upper (VStr s) = Inr (upper s)"
| "py_upper (VNode c) = (if map_of c ''UPPER'' = None then Inl AttributeError else Inl TypeError)"
| "py_upper v = Inl AttributeError"

definition UpperDict_get_obj :: "pydict \<Rightarrow> pyval \<Rightarrow> pyval \<Rightarrow> pyerror + pyval" where
  "UpperDict_get_obj self key dflt =
     (case py_upper key of
        Inl e \<Rightarrow> Inl e
      | Inr k \<Rightarrow> (case map_of self k of None \<Rightarrow> Inr dflt | Some v \<Rightarrow> Inr v))"

fun py_get :: "pyval \<Rightarrow> string \<Rightarrow> pyval \<Rightarrow> pyerror + pyval" where
  "py_get (VNode c) key dflt = UpperDict_get c key dflt"
| "py_get (VDict d) key dflt = (case map_of d key of None \<Rightarrow> Inr dflt | Some v \<Rightarrow> Inr v)"
| "py_get x key dflt = Inl AttributeError"

definition Config_get :: "pydict \<Rightarrow> string \<Rightarrow> pyval \<Rightarrow> pyerror + pyval" where
  "Config_get self key dflt =
     (case UpperDict_getitem self ''env'' of
        Inl e \<Rightarrow> Inl e
      | Inr name \<Rightarrow>
          (case UpperDict_get_obj self name (VDict []) of
             Inl e \<Rightarrow> Inl e
           | Inr env \<Rightarrow>
               (case py_get env key VNone of
                  Inl e \<Rightarrow> Inl e
                | Inr val \<Rightarrow>
                    if val = VNone then UpperDict_get self key dflt else Inr val)))"

text \<open>
  \<^verbatim>\<open>__getattr__\<close>, inherited from \<^verbatim>\<open>UpperDict\<close>, calls the \<^verbatim>\<open>get\<close> of the object's class
  with \<^verbatim>\<open>...\<close> as the default and turns a \<^verbatim>\<open>KeyError\<close> into an \<^verbatim>\<open>AttributeError\<close>.
\<close>

definition UpperDict_getattr :: "pydict \<Rightarrow> string \<Rightarrow> pyerror + pyval" where
  "UpperDict_getattr self name =
     (case UpperDict_get self name VEllipsis of
        Inl KeyError \<Rightarrow> Inl AttributeError
      | Inl e \<Rightarrow> Inl e
      | Inr val \<Rightarrow> if val = VEllipsis then Inl AttributeError else Inr val)"

definition Config_getattr :: "pydict \<Rightarrow> string \<Rightarrow> pyerror + pyval" where
  "Config_getattr self name =
     (case Config_get self name VEllipsis of
        Inl KeyError \<Rightarrow> Inl AttributeError
      | Inl e \<Rightarrow> Inl e
      | Inr val \<Rightarrow> if val = VEllipsis then Inl AttributeError else Inr val)"

subsection \<open>The guarded entry points\<close>

text \<open>
  \<^verbatim>\<open>__setattr__\<close> lets one name through, the private attribute that holds the storage, and
  hands it to \<^verbatim>\<open>object.__setattr__\<close>; the model returns the value of that attribute
  afterwards. \<^verbatim>\<open>__delattr__\<close> and \<^verbatim>\<open>__delitem__\<close> raise for every argument.
\<close>

definition mutation_message :: string where
  "mutation_message = ''Modifying the attribute value of Config is not allowed.''"

definition Config_setattr :: "pydict \<Rightarrow> string \<Rightarrow> pyval \<Rightarrow> pyval \<times> pyerror option" where
  "Config_setattr self name val =
     (if name = ''_UpperDict__dict'' then (val, None)
      else (VDict self, Some (ConfigError mutation_message)))"

definition Config_delattr :: "pydict \<Rightarrow> string \<Rightarrow> pydict \<times> pyerror option" where
  "Config_delattr self name = (self, Some (ConfigError mutation_message))"

definition Config_delitem :: "pydict \<Rightarrow> string \<Rightarrow> pydict \<times> pyerror option" where
  "Config_delitem self key = (self, Some (ConfigError mutation_message))"

section \<open>Case-insensitive keys\<close>

lemma same_letter_upper_char: "same_letter c d \<Longrightarrow> upper_char c = upper_char d"
  unfolding same_letter_def upper_char_def is_lower_def is_upper_def
  by (elim disjE conjE) simp_all

lemma case_variant_upper: "case_variant k k' \<Longrightarrow> upper k = upper k'"
  unfolding case_variant_def upper_def
  by (induction k k' rule: list_all2_induct) (simp_all add: same_letter_upper_char)

lemma map_of_dict_set_same: "map_of (dict_set d k v) k = Some v"
  by (induction d k v rule: dict_set.induct) simp_all

lemma map_of_dict_set_other: "j \<noteq> k \<Longrightarrow> map_of (dict_set d k v) j = map_of d j"
  by (induction d k v rule: dict_set.induct) simp_all

lemma UpperDict_setitem_plain:
  "\<not> is_dict v \<Longrightarrow> UpperDict_setitem self key v = (dict_set self (upper key) v, None)"
  by (cases v) simp_all

lemma UpperDict_setitem_upper_cong:
  "upper k = upper k' \<Longrightarrow> UpperDict_setitem self k v = UpperDict_setitem self k' v"
  by (cases v) (simp_all split: option.splits prod.splits)



section \<open>Merging into a child Node\<close>

lemma upper_char_not_lower: "\<not> is_lower (upper_char c)"
proof (cases "is_lower c")
  case False
  then show ?thesis
    by (simp add: upper_char_def)
next
  case True
  then have b: "(of_char c :: nat) \<le> 122"
    by (simp add: is_lower_def)
  from b have "(of_char c :: nat) - 32 < 256" and "(of_char c :: nat) - 32 < 97"
    by arith+
  then have "(of_char (char_of ((of_char c :: nat) - 32)) :: nat) < 97"
    by simp
  with True show ?thesis
    by (simp add: upper_char_def is_lower_def)
qed

lemma upper_char_idem: "upper_char (upper_char c) = upper_char c"
  using upper_char_not_lower [of c] by (simp add: upper_char_def [of "upper_char c"])

lemma upper_idem: "upper (upper k) = upper k"
  by (simp add: upper_def upper_char_idem)

lemma UpperDict_setitem_frame:
  "j \<noteq> upper key \<Longrightarrow> map_of (fst (UpperDict_setitem self key v)) j = map_of self j"
  by (cases v) (simp_all add: map_of_dict_set_other split: option.splits prod.splits)

lemma UpperDict_setitem_keeps_keys:
  assumes "map_of self j \<noteq> None"
  shows "map_of (fst (UpperDict_setitem self key v)) j \<noteq> None"
proof (cases "j = upper key")
  case False
  with assms show ?thesis
    by (simp add: UpperDict_setitem_frame)
next
  case True
  with assms show ?thesis
    by (cases v) (simp_all add: map_of_dict_set_same split: option.splits prod.splits)
qed

lemma UpperDict_setitem_stores_key:
  "snd (UpperDict_setitem self key v) = None
   \<Longrightarrow> map_of (fst (UpperDict_setitem self key v)) (upper key) \<noteq> None"
  by (cases v) (simp_all add: map_of_dict_set_same split: option.splits prod.splits)

lemma UpperDict_init_loop_frame:
  "j \<notin> upper ` fst ` set d \<Longrightarrow> map_of (fst (UpperDict_init_loop self d)) j = map_of self j"
proof (induction d arbitrary: self)
  case Nil
  show ?case by simp
next
  case (Cons kv d)
  obtain k v where kv: "kv = (k, v)"
    by (cases kv)
  obtain self' e where s: "UpperDict_setitem self k v = (self', e)"
    by (cases "UpperDict_setitem self k v")
  from Cons.prems kv have j: "j \<noteq> upper k" and j': "j \<notin> upper ` fst ` set d"
    by auto
  have "map_of self' j = map_of self j"
    using UpperDict_setitem_frame [OF j, of self v] by (simp add: s)
  with Cons.IH [OF j', of self'] show ?case
    by (cases e) (simp_all add: kv s)
qed

lemma UpperDict_init_loop_keeps_keys:
  "map_of self j \<noteq> None \<Longrightarrow> map_of (fst (UpperDict_init_loop self d)) j \<noteq> None"
proof (induction d arbitrary: self)
  case Nil
  then show ?case by simp
next
  case (Cons kv d)
  obtain k v where kv: "kv = (k, v)"
    by (cases kv)
  obtain self' e where s: "UpperDict_setitem self k v = (self', e)"
    by (cases "UpperDict_setitem self k v")
  have "map_of self' j \<noteq> None"
    using UpperDict_setitem_keeps_keys [OF Cons.prems, of k v] by (simp add: s)
  with Cons.IH [of self'] show ?case
    by (cases e) (simp_all add: kv s)
qed

lemma UpperDict_init_loop_stores_keys:
  "snd (UpperDict_init_loop self d) = None \<Longrightarrow> k \<in> fst ` set d
   \<Longrightarrow> map_of (fst (UpperDict_init_loop self d)) (upper k) \<noteq> None"
proof (induction d arbitrary: self)
  case Nil
  then show ?case by simp
next
  case (Cons kv d)
  obtain k0 v where kv: "kv = (k0, v)"
    by (cases kv)
  obtain self' e where s: "UpperDict_setitem self k0 v = (self', e)"
    by (cases "UpperDict_setitem self k0 v")
  from Cons.prems(1) have e: "e = None"
    by (cases e) (simp_all add: kv s)
  from Cons.prems(1) have rest: "snd (UpperDict_init_loop self' d) = None"
    by (simp add: kv s e)
  have step: "UpperDict_init_loop self (kv # d) = UpperDict_init_loop self' d"
    by (simp add: kv s e)
  show ?case
  proof (cases "k \<in> fst ` set d")
    case True
    show ?thesis
      unfolding step by (rule Cons.IH [OF rest True])
  next
    case False
    with Cons.prems(2) kv have k: "k = k0"
      by auto
    have "map_of self' (upper k0) \<noteq> None"
      using UpperDict_setitem_stores_key [of self k0 v] by (simp add: s e)
    then show ?thesis
      unfolding step k by (rule UpperDict_init_loop_keeps_keys)
  qed
qed

lemma merge_loop_node:
  "merge_loop (VNode c) d =
     (VNode (fst (UpperDict_init_loop c d)), snd (UpperDict_init_loop c d))"
proof (induction d arbitrary: c)
  case Nil
  show ?case by simp
next
  case (Cons kv d)
  obtain k v where kv: "kv = (k, v)"
    by (cases kv)
  have u: "UpperDict_setitem c (upper k) v = UpperDict_setitem c k v"
    by (rule UpperDict_setitem_upper_cong) (rule upper_idem)
  obtain c' e where s: "UpperDict_setitem c k v = (c', e)"
    by (cases "UpperDict_setitem c k v")
  show ?case
    by (cases e) (simp_all add: kv u s Cons.IH)
qed

lemma UpperDict_setitem_merge:
  assumes "map_of self (upper key) = Some (VNode c)"
  shows "UpperDict_setitem self key (VDict d) =
           (dict_set self (upper key) (VNode (fst (UpperDict_init_loop c d))),
            snd (UpperDict_init_loop c d))"
  by (simp add: assms merge_loop_node)

lemma merge_example:
  "UpperDict_setitem (fst (UpperDict_setitem [] ''a'' (VDict [(''x'', VInt 1)]))) ''a''
     (VDict [(''y'', VInt 2)])
   = ([(''A'', VNode [(''X'', VInt 1), (''Y'', VInt 2)])], None)"
  by code_simp

text \<open>
  Claim C2. When the key already holds a child Node \<open>c\<close>, setting it to a mapping \<open>d\<close> keeps
  that child and sets every item of \<open>d\<close> into it, one after the other: the child afterwards
  is what the assignment loop makes of \<open>c\<close> and \<open>d\<close>, at the same key. No key of the child
  is lost, a key of the child that no key of \<open>d\<close> folds to keeps its value, the other keys
  of the Node keep theirs, and when nothing is raised every key of \<open>d\<close> is in the child.
  In particular \<^verbatim>\<open>{a: {x: 1}}\<close> followed by \<^verbatim>\<open>{a: {y: 2}}\<close> leaves \<^verbatim>\<open>{X: 1, Y: 2}\<close> at \<^verbatim>\<open>A\<close>.
\<close>

theorem C2_additive_nested_merge:
  assumes "map_of self (upper key) = Some (VNode c)"
  shows "UpperDict_setitem self key (VDict d) =
           (dict_set self (upper key) (VNode (fst (UpperDict_init_loop c d))),
            snd (UpperDict_init_loop c d))
       \<and> map_of (fst (UpperDict_setitem self key (VDict d))) (upper key) =
           Some (VNode (fst (UpperDict_init_loop c d)))
       \<and> (\<forall>j. map_of c j \<noteq> None \<longrightarrow> map_of (fst (UpperDict_init_loop c d)) j \<noteq> None)
       \<and> (\<forall>j. j \<notin> upper ` fst ` set d \<longrightarrow>
              map_of (fst (UpperDict_init_loop c d)) j = map_of c j)
       \<and> (\<forall>j. j \<noteq> upper key \<longrightarrow>
              map_of (fst (UpperDict_setitem self key (VDict d))) j = map_of self j)
       \<and> (snd (UpperDict_setitem self key (VDict d)) = None \<longrightarrow>
            (\<forall>k \<in> fst ` set d. map_of (fst (UpperDict_init_loop c d)) (upper k) \<noteq> None))
       \<and> UpperDict_setitem (fst (UpperDict_setitem [] ''a'' (VDict [(''x'', VInt 1)]))) ''a''
            (VDict [(''y'', VInt 2)])
          = ([(''A'', VNode [(''X'', VInt 1), (''Y'', VInt 2)])], None)"
proof -
  have m: "UpperDict_setitem self key (VDict d) =
             (dict_set self (upper key) (VNode (fst (UpperDict_init_loop c d))),
              snd (UpperDict_init_loop c d))"
    by (rule UpperDict_setitem_merge [OF assms])
  have a: "map_of (fst (UpperDict_setitem self key (VDict d))) (upper key) =
             Some (VNode (fst (UpperDict_init_loop c d)))"
    unfolding m by (simp add: map_of_dict_set_same)
  have b: "\<forall>j. map_of c j \<noteq> None \<longrightarrow> map_of (fst (UpperDict_init_loop c d)) j \<noteq> None"
    by (intro allI impI UpperDict_init_loop_keeps_keys)
  have f: "\<forall>j. j \<notin> upper ` fst ` set d \<longrightarrow>
             map_of (fst (UpperDict_init_loop c d)) j = map_of c j"
    by (intro allI impI UpperDict_init_loop_frame)
  have g: "\<forall>j. j \<noteq> upper key \<longrightarrow>
             map_of (fst (UpperDict_setitem self key (VDict d))) j = map_of self j"
    by (intro allI impI UpperDict_setitem_frame)
  have h: "snd (UpperDict_setitem self key (VDict d)) = None \<longrightarrow>
             (\<forall>k \<in> fst ` set d. map_of (fst (UpperDict_init_loop c d)) (upper k) \<noteq> None)"
  proof (intro impI ballI)
    fix k
    assume "snd (UpperDict_setitem self key (VDict d)) = None" and k: "k \<in> fst ` set d"
    then have "snd (UpperDict_init_loop c d) = None"
      unfolding m by simp
    then show "map_of (fst (UpperDict_init_loop c d)) (upper k) \<noteq> None"
      using k by (rule UpperDict_init_loop_stores_keys)
  qed
  from m a b f g h merge_example show ?thesis
    by (intro conjI)
qed

theorem C2_witness:
  "map_of [(''A'', VNode [(''X'', VInt 1)])] (upper ''a'') = Some (VNode [(''X'', VInt 1)])
   \<and> UpperDict_setitem [(''A'', VNode [(''X'', VInt 1)])] ''a'' (VDict [(''y'', VInt 2)])
     = ([(''A'', VNode [(''X'', VInt 1), (''Y'', VInt 2)])], None)"
proof -
  have h: "map_of [(''A'', VNode [(''X'', VInt 1)])] (upper ''a'') = Some (VNode [(''X'', VInt 1)])"
    by code_simp
  have e: "(dict_set [(''A'', VNode [(''X'', VInt 1)])] (upper ''a'')
              (VNode (fst (UpperDict_init_loop [(''X'', VInt 1)] [(''y'', VInt 2)]))),
            snd (UpperDict_init_loop [(''X'', VInt 1)] [(''y'', VInt 2)]))
           = ([(''A'', VNode [(''X'', VInt 1), (''Y'', VInt 2)])], None)"
    by code_simp
  have "UpperDict_setitem [(''A'', VNode [(''X'', VInt 1)])] ''a'' (VDict [(''y'', VInt 2)])
        = (dict_set [(''A'', VNode [(''X'', VInt 1)])] (upper ''a'')
              (VNode (fst (UpperDict_init_loop [(''X'', VInt 1)] [(''y'', VInt 2)]))),
            snd (UpperDict_init_loop [(''X'', VInt 1)] [(''y'', VInt 2)]))"
    using C2_additive_nested_merge [OF h, of "[(''y'', VInt 2)]"] by (elim conjE)
  then have "UpperDict_setitem [(''A'', VNode [(''X'', VInt 1)])] ''a'' (VDict [(''y'', VInt 2)])
        = ([(''A'', VNode [(''X'', VInt 1), (''Y'', VInt 2)])], None)"
    using e by (rule trans)
  with h show ?thesis
    by (intro conjI)
qed

section \<open>A mapping set onto a key that holds no Node\<close>

lemma dict_set_same_value: "map_of d k = Some v \<Longrightarrow> dict_set d k v = d"
  by (induction d k v rule: dict_set.induct) (auto split: if_splits)

lemma item_assign_scalar:
  "\<not> is_dict old \<Longrightarrow> \<not> is_node old \<Longrightarrow> item_assign old k v = (old, Some TypeError)"
  by (cases old) simp_all

lemma merge_loop_scalar:
  assumes "\<not> is_dict old" and "\<not> is_node old"
  shows "merge_loop old d = (old, if d = [] then None else Some TypeError)"
proof (cases d)
  case Nil
  then show ?thesis by simp
next
  case (Cons kv rest)
  obtain k v where "kv = (k, v)"
    by (cases kv)
  with Cons show ?thesis
    by (simp add: item_assign_scalar [OF assms])
qed

text \<open>
  Claim C10, as the code has it. When the key holds a value that is neither a Node nor a
  mapping, setting it to a mapping never replaces the old value and never changes the Node.
  A mapping with at least one item raises \<^verbatim>\<open>TypeError\<close> (the item assignment into the old
  value), which is not a configuration error; the empty mapping raises nothing, since its
  loop has nothing to assign.
\<close>

theorem C10_mapping_onto_scalar:
  assumes "map_of self (upper key) = Some old" and "\<not> is_dict old" and "\<not> is_node old"
  shows "fst (UpperDict_setitem self key (VDict d)) = self
       \<and> UpperDict_getitem (fst (UpperDict_setitem self key (VDict d))) key = Inr old
       \<and> snd (UpperDict_setitem self key (VDict d)) = (if d = [] then None else Some TypeError)
       \<and> (\<forall>msg. snd (UpperDict_setitem self key (VDict d)) \<noteq> Some (ConfigError msg))"
proof -
  have m: "merge_loop old d = (old, if d = [] then None else Some TypeError)"
    by (rule merge_loop_scalar [OF assms(2,3)])
  have s: "UpperDict_setitem self key (VDict d) = (self, if d = [] then None else Some TypeError)"
    by (simp add: assms(1) m dict_set_same_value [OF assms(1)])
  have a: "fst (UpperDict_setitem self key (VDict d)) = self"
    unfolding s by simp
  have b: "UpperDict_getitem (fst (UpperDict_setitem self key (VDict d))) key = Inr old"
    unfolding a by (simp add: UpperDict_getitem_def assms(1))
  have c: "snd (UpperDict_setitem self key (VDict d)) = (if d = [] then None else Some TypeError)"
    unfolding s by simp
  have e: "\<forall>msg. snd (UpperDict_setitem self key (VDict d)) \<noteq> Some (ConfigError msg)"
    unfolding c by simp
  from a b c e show ?thesis
    by (intro conjI)
qed

theorem C10_witness:
  "map_of [(''PORT'', VInt 4190)] (upper ''port'') = Some (VInt 4190)
   \<and> \<not> is_dict (VInt 4190) \<and> \<not> is_node (VInt 4190)
   \<and> snd (UpperDict_setitem [(''PORT'', VInt 4190)] ''port'' (VDict [(''x'', VInt 1)]))
       = Some TypeError
   \<and> fst (UpperDict_setitem [(''PORT'', VInt 4190)] ''port'' (VDict [(''x'', VInt 1)]))
       = [(''PORT'', VInt 4190)]"
proof -
  have h: "map_of [(''PORT'', VInt 4190)] (upper ''port'') = Some (VInt 4190)"
    by code_simp
  have d: "\<not> is_dict (VInt 4190)" and n: "\<not> is_node (VInt 4190)"
    by simp_all
  note r = C10_mapping_onto_scalar [OF h d n, of "[(''x'', VInt 1)]"]
  from r have f: "fst (UpperDict_setitem [(''PORT'', VInt 4190)] ''port'' (VDict [(''x'', VInt 1)]))
          = [(''PORT'', VInt 4190)]"
    by (elim conjE)
  from r have "snd (UpperDict_setitem [(''PORT'', VInt 4190)] ''port'' (VDict [(''x'', VInt 1)]))
          = (if [(''x'', VInt 1)] = [] then None else Some TypeError)"
    by (elim conjE)
  also have "\<dots> = Some TypeError"
    by simp
  finally have e: "snd (UpperDict_setitem [(''PORT'', VInt 4190)] ''port'' (VDict [(''x'', VInt 1)]))
          = Some TypeError" .
  from h d n e f show ?thesis
    by (intro conjI)
qed

text \<open>
  The claim as written says that the assignment raises whenever the key holds a value that
  is not a mapping. The empty mapping set onto the port raises nothing.
\<close>

theorem C10_counterexample:
  "map_of [(''PORT'', VInt 4190)] (upper ''port'') = Some (VInt 4190)
   \<and> UpperDict_setitem [(''PORT'', VInt 4190)] ''port'' (VDict [])
     = ([(''PORT'', VInt 4190)], None)"
  by code_simp

section \<open>Reading through the environment's block\<close>

lemma upper_env: "upper ''env'' = ''ENV''"
  by code_simp

lemma upper_host: "upper ''host'' = ''HOST''"
  by code_simp

lemma upper_production: "upper ''production'' = ''PRODUCTION''"
  by code_simp

lemma upper_dev: "upper ''dev'' = ''DEV''"
  by code_simp

text \<open>
  Claim C3. A root whose \<^verbatim>\<open>env\<close> is \<^verbatim>\<open>"production"\<close>, with a child Node \<^verbatim>\<open>production\<close> holding
  \<^verbatim>\<open>host: "0.0.0.0"\<close> and a root-level \<^verbatim>\<open>host: "127.0.0.1"\<close>, answers \<^verbatim>\<open>get("host")\<close> with
  \<^verbatim>\<open>"0.0.0.0"\<close>. The same root with \<^verbatim>\<open>env\<close> set to \<^verbatim>\<open>"dev"\<close>, and no key \<^verbatim>\<open>dev\<close>, answers
  \<^verbatim>\<open>"127.0.0.1"\<close>.
\<close>

theorem C3_environment_scoped_read:
  assumes "map_of self ''ENV'' = Some (VStr ''production'')"
    and "map_of self ''PRODUCTION'' = Some (VNode c)"
    and "map_of c ''HOST'' = Some (VStr ''0.0.0.0'')"
    and "map_of self ''HOST'' = Some (VStr ''127.0.0.1'')"
    and "map_of self ''DEV'' = None"
  shows "Config_get self ''host'' dflt = Inr (VStr ''0.0.0.0'')
       \<and> Config_get (dict_set self ''ENV'' (VStr ''dev'')) ''host'' dflt = Inr (VStr ''127.0.0.1'')"
proof -
  have p: "Config_get self ''host'' dflt = Inr (VStr ''0.0.0.0'')"
    by (simp add: Config_get_def UpperDict_getitem_def UpperDict_get_obj_def UpperDict_get_def
        upper_env upper_host upper_production assms(1,2,3))
  let ?self = "dict_set self ''ENV'' (VStr ''dev'')"
  have e: "map_of ?self ''ENV'' = Some (VStr ''dev'')"
    by (rule map_of_dict_set_same)
  have d: "map_of ?self ''DEV'' = None"
    using assms(5) by (simp add: map_of_dict_set_other)
  have h: "map_of ?self ''HOST'' = Some (VStr ''127.0.0.1'')"
    using assms(4) by (simp add: map_of_dict_set_other)
  have q: "Config_get ?self ''host'' dflt = Inr (VStr ''127.0.0.1'')"
    by (simp add: Config_get_def UpperDict_getitem_def UpperDict_get_obj_def UpperDict_get_def
        upper_env upper_host upper_dev e d h)
  from p q show ?thesis
    by (intro conjI)
qed

theorem C3_witness:
  "map_of [(''ENV'', VStr ''production''), (''HOST'', VStr ''127.0.0.1''),
           (''PRODUCTION'', VNode [(''HOST'', VStr ''0.0.0.0'')])] ''ENV''
     = Some (VStr ''production'')
   \<and> Config_get [(''ENV'', VStr ''production''), (''HOST'', VStr ''127.0.0.1''),
                 (''PRODUCTION'', VNode [(''HOST'', VStr ''0.0.0.0'')])] ''host'' VNone
     = Inr (VStr ''0.0.0.0'')
   \<and> Config_get (dict_set [(''ENV'', VStr ''production''), (''HOST'', VStr ''127.0.0.1''),
                 (''PRODUCTION'', VNode [(''HOST'', VStr ''0.0.0.0'')])] ''ENV'' (VStr ''dev''))
        ''host'' VNone
     = Inr (VStr ''127.0.0.1'')"
proof -
  let ?root = "[(''ENV'', VStr ''production''), (''HOST'', VStr ''127.0.0.1''),
                (''PRODUCTION'', VNode [(''HOST'', VStr ''0.0.0.0'')])]"
  have a: "map_of ?root ''ENV'' = Some (VStr ''production'')"
    by simp
  have b: "map_of ?root ''PRODUCTION'' = Some (VNode [(''HOST'', VStr ''0.0.0.0'')])"
    by simp
  have c: "map_of [(''HOST'', VStr ''0.0.0.0'')] ''HOST'' = Some (VStr ''0.0.0.0'')"
    by simp
  have d: "map_of ?root ''HOST'' = Some (VStr ''127.0.0.1'')"
    by simp
  have e: "map_of ?root ''DEV'' = None"
    by simp
  note r = C3_environment_scoped_read [OF a b c d e, of VNone]
  from r have p: "Config_get ?root ''host'' VNone = Inr (VStr ''0.0.0.0'')"
    by (elim conjE)
  from r have q: "Config_get (dict_set ?root ''ENV'' (VStr ''dev'')) ''host'' VNone
                    = Inr (VStr ''127.0.0.1'')"
    by (elim conjE)
  from a p q show ?thesis
    by (intro conjI)
qed

text \<open>
  Claim C9 says that a key present in the environment's block is returned from there even
  when its value is \<^verbatim>\<open>None\<close>. \<^verbatim>\<open>Config.get\<close> asks the block with \<^verbatim>\<open>None\<close> as the default and
  tests the answer with \<^verbatim>\<open>is None\<close>, so a key that is present with \<^verbatim>\<open>None\<close> is taken for a
  missing one: the root-level value is returned. (\<^verbatim>\<open>__getattr__\<close> in the same class tells the
  two apart with the sentinel \<^verbatim>\<open>...\<close>.) Here the block \<^verbatim>\<open>production\<close> holds \<^verbatim>\<open>host: None\<close>; the
  block itself answers \<^verbatim>\<open>None\<close> for the key, \<^verbatim>\<open>Config.get\<close> answers the root's address, and
  with no root-level value the attribute access reports the key as missing.
\<close>

theorem C9_null_override_falls_back:
  "py_get (VNode [(''HOST'', VNone)]) ''host'' VEllipsis = Inr VNone
   \<and> Config_get [(''ENV'', VStr ''production''), (''HOST'', VStr ''127.0.0.1''),
                 (''PRODUCTION'', VNode [(''HOST'', VNone)])] ''host'' VNone
     = Inr (VStr ''127.0.0.1'')
   \<and> Config_get [(''ENV'', VStr ''production''),
                 (''PRODUCTION'', VNode [(''HOST'', VNone)])] ''host'' (VInt 0)
     = Inr (VInt 0)
   \<and> Config_getattr [(''ENV'', VStr ''production''),
                     (''PRODUCTION'', VNode [(''HOST'', VNone)])] ''host''
     = Inl AttributeError"
  by code_simp

section \<open>The guarded entry points and item assignment\<close>

lemma Config_init_defaults:
  "Config_init Map.empty Map.empty =
     ([(''ENV'', VStr ''dev''), (''DEBUG'', VBool False), (''HOST'', VStr ''127.0.0.1''),
       (''PORT'', VInt 4190), (''LOG_LEVEL'', VStr ''info''), (''HOTRELOAD'', VBool True),
       (''ALLOW_UNDERLINE'', VBool False), (''FORCE_SSL'', VBool False),
       (''ALLOWED_HOSTS'', VList [VStr ''*'', VStr ''testserver'']),
       (''CORS_ALLOW_ORIGINS'', VTuple []), (''CORS_ALLOW_METHODS'', VTuple [VStr ''GET'']),
       (''CORS_ALLOW_HEADERS'', VTuple []), (''CORS_ALLOW_CREDENTIALS'', VBool False),
       (''CORS_ALLOW_ORIGIN_REGEX'', VNone), (''CORS_EXPOSE_HEADERS'', VTuple []),
       (''CORS_MAX_AGE'', VInt 600)], [], None)"
  by code_simp

lemma Config_setitem_plain:
  assumes "upper key \<noteq> ''DEBUG''" and "upper key \<noteq> ''PORT''"
    and "upper key \<noteq> ''ALLOWED_HOSTS''" and "\<not> is_dict val"
  shows "Config_setitem self key val = (dict_set self (upper key) val, None)"
  using assms
  by (simp add: Config_setitem_def Let_def upper_idem UpperDict_setitem_plain)

text \<open>
  Claim C4, as the code has it. On every \<^verbatim>\<open>Config\<close>, and so on the one that construction
  leaves: attribute assignment to any name but the private storage attribute, attribute
  deletion and item deletion raise the configuration error and change nothing, so every
  read gives what it gave before. Item assignment is not guarded: outside the three
  converted keys, a value that is not a mapping is stored without an exception and is what
  the Node returns afterwards.
\<close>

theorem C4_guarded_entry_points:
  "(name \<noteq> ''_UpperDict__dict'' \<longrightarrow>
      Config_setattr self name val = (VDict self, Some (ConfigError mutation_message)))
   \<and> Config_delattr self name = (self, Some (ConfigError mutation_message))
   \<and> Config_delitem self key = (self, Some (ConfigError mutation_message))
   \<and> Config_get (fst (Config_delattr self name)) key dflt = Config_get self key dflt
   \<and> Config_get (fst (Config_delitem self key)) key dflt = Config_get self key dflt
   \<and> (upper key \<noteq> ''DEBUG'' \<and> upper key \<noteq> ''PORT'' \<and> upper key \<noteq> ''ALLOWED_HOSTS''
        \<and> \<not> is_dict val \<longrightarrow>
        snd (Config_setitem self key val) = None
        \<and> UpperDict_getitem (fst (Config_setitem self key val)) key = Inr val)"
proof -
  have a: "name \<noteq> ''_UpperDict__dict'' \<longrightarrow>
      Config_setattr self name val = (VDict self, Some (ConfigError mutation_message))"
    by (simp add: Config_setattr_def)
  have b: "Config_delattr self name = (self, Some (ConfigError mutation_message))"
    by (simp add: Config_delattr_def)
  have c: "Config_delitem self key = (self, Some (ConfigError mutation_message))"
    by (simp add: Config_delitem_def)
  have d: "Config_get (fst (Config_delattr self name)) key dflt = Config_get self key dflt"
    by (simp add: b)
  have e: "Config_get (fst (Config_delitem self key)) key dflt = Config_get self key dflt"
    by (simp add: c)
  have f: "upper key \<noteq> ''DEBUG'' \<and> upper key \<noteq> ''PORT'' \<and> upper key \<noteq> ''ALLOWED_HOSTS''
        \<and> \<not> is_dict val \<longrightarrow>
        snd (Config_setitem self key val) = None
        \<and> UpperDict_getitem (fst (Config_setitem self key val)) key = Inr val"
    by (simp add: Config_setitem_plain UpperDict_getitem_def map_of_dict_set_same)
  from a b c d e f show ?thesis
    by (intro conjI)
qed

theorem C4_witness:
  "''host'' \<noteq> ''_UpperDict__dict''
   \<and> Config_setattr (fst (Config_init Map.empty Map.empty)) ''host'' (VStr ''0.0.0.0'')
       = (VDict (fst (Config_init Map.empty Map.empty)), Some (ConfigError mutation_message))
   \<and> snd (Config_setitem (fst (Config_init Map.empty Map.empty)) ''host'' (VStr ''0.0.0.0''))
       = None"
proof -
  let ?c = "fst (Config_init Map.empty Map.empty)"
  note r = C4_guarded_entry_points [of "''host''" ?c "VStr ''0.0.0.0''" "''host''" VNone]
  have n: "''host'' \<noteq> ''_UpperDict__dict''"
    by simp
  have u: "upper ''host'' \<noteq> ''DEBUG'' \<and> upper ''host'' \<noteq> ''PORT''
           \<and> upper ''host'' \<noteq> ''ALLOWED_HOSTS'' \<and> \<not> is_dict (VStr ''0.0.0.0'')"
    by (simp add: upper_host)
  from r have i: "''host'' \<noteq> ''_UpperDict__dict'' \<longrightarrow>
      Config_setattr ?c ''host'' (VStr ''0.0.0.0'')
        = (VDict ?c, Some (ConfigError mutation_message))"
    by (elim conjE)
  from i n have a: "Config_setattr ?c ''host'' (VStr ''0.0.0.0'')
       = (VDict ?c, Some (ConfigError mutation_message))"
    by (rule mp)
  from r have j: "upper ''host'' \<noteq> ''DEBUG'' \<and> upper ''host'' \<noteq> ''PORT''
           \<and> upper ''host'' \<noteq> ''ALLOWED_HOSTS'' \<and> \<not> is_dict (VStr ''0.0.0.0'') \<longrightarrow>
        snd (Config_setitem ?c ''host'' (VStr ''0.0.0.0'')) = None
        \<and> UpperDict_getitem (fst (Config_setitem ?c ''host'' (VStr ''0.0.0.0''))) ''host''
            = Inr (VStr ''0.0.0.0'')"
    by (elim conjE)
  from j u have "snd (Config_setitem ?c ''host'' (VStr ''0.0.0.0'')) = None
        \<and> UpperDict_getitem (fst (Config_setitem ?c ''host'' (VStr ''0.0.0.0''))) ''host''
            = Inr (VStr ''0.0.0.0'')"
    by (rule mp)
  then have b: "snd (Config_setitem ?c ''host'' (VStr ''0.0.0.0'')) = None"
    by (rule conjunct1)
  from n a b show ?thesis
    by (intro conjI)
qed

text \<open>
  The claim as written has key reassignment fail with the mutation error and the old value
  stay. After a construction with no file and no environment variable,
  \<^verbatim>\<open>config["host"] = "0.0.0.0"\<close> raises nothing, and the old address is gone.
\<close>

theorem C4_counterexample:
  "snd (snd (Config_init Map.empty Map.empty)) = None
   \<and> Config_get (fst (Config_init Map.empty Map.empty)) ''host'' VNone
       = Inr (VStr ''127.0.0.1'')
   \<and> snd (Config_setitem (fst (Config_init Map.empty Map.empty)) ''host'' (VStr ''0.0.0.0''))
       = None
   \<and> Config_get
        (fst (Config_setitem (fst (Config_init Map.empty Map.empty)) ''host'' (VStr ''0.0.0.0'')))
        ''host'' VNone
       = Inr (VStr ''0.0.0.0'')"
  unfolding Config_init_defaults by code_simp

section \<open>Conflicting configuration files\<close>







section \<open>The debug flag of the environment\<close>

text \<open>
  Claim C6, as the code has it. The tokens that turn the flag on are \<^verbatim>\<open>"on"\<close> and
  \<^verbatim>\<open>"True"\<close>, with a capital T: with one of them in \<^verbatim>\<open>INDEX_DEBUG\<close> the overlay has
  \<^verbatim>\<open>debug: True\<close>; with any other string that is not empty it has \<^verbatim>\<open>debug: False\<close>; with the
  variable absent it has no \<^verbatim>\<open>debug\<close> entry.
\<close>

theorem C6_index_debug:
  "(environ ''INDEX_DEBUG'' = Some ''on'' \<or> environ ''INDEX_DEBUG'' = Some ''True'' \<longrightarrow>
      map_of (import_environ environ) ''debug'' = Some (VBool True))
   \<and> (\<forall>s. environ ''INDEX_DEBUG'' = Some s \<and> s \<noteq> [] \<and> s \<noteq> ''on'' \<and> s \<noteq> ''True'' \<longrightarrow>
      map_of (import_environ environ) ''debug'' = Some (VBool False))
   \<and> (environ ''INDEX_DEBUG'' = None \<longrightarrow> map_of (import_environ environ) ''debug'' = None)"
proof -
  have ne: "''debug'' \<noteq> ''env''"
    by simp
  have k: "map_of (import_environ environ) ''debug'' =
             (if environ_truthy (environ ''INDEX_DEBUG'')
              then Some (VBool (environ ''INDEX_DEBUG'' \<in> {Some ''on'', Some ''True''}))
              else None)"
    unfolding import_environ_def Let_def
    by (simp only: map_of_dict_set_other [OF ne] map_of_dict_set_same map_of.simps if_distrib
        split: if_splits) simp
  have a: "environ ''INDEX_DEBUG'' = Some ''on'' \<or> environ ''INDEX_DEBUG'' = Some ''True'' \<longrightarrow>
      map_of (import_environ environ) ''debug'' = Some (VBool True)"
    unfolding k by (auto simp: environ_truthy_def)
  have b: "\<forall>s. environ ''INDEX_DEBUG'' = Some s \<and> s \<noteq> [] \<and> s \<noteq> ''on'' \<and> s \<noteq> ''True'' \<longrightarrow>
      map_of (import_environ environ) ''debug'' = Some (VBool False)"
    unfolding k by (auto simp: environ_truthy_def)
  have c: "environ ''INDEX_DEBUG'' = None \<longrightarrow> map_of (import_environ environ) ''debug'' = None"
    unfolding k by (simp add: environ_truthy_def)
  from a b c show ?thesis
    by (intro conjI)
qed

theorem C6_witness:
  "([''INDEX_DEBUG'' \<mapsto> ''on''] ''INDEX_DEBUG'' = Some ''on''
      \<and> map_of (import_environ [''INDEX_DEBUG'' \<mapsto> ''on'']) ''debug'' = Some (VBool True))
   \<and> ([''INDEX_DEBUG'' \<mapsto> ''off''] ''INDEX_DEBUG'' = Some ''off''
      \<and> map_of (import_environ [''INDEX_DEBUG'' \<mapsto> ''off'']) ''debug'' = Some (VBool False))
   \<and> ((Map.empty :: string \<rightharpoonup> string) ''INDEX_DEBUG'' = None
      \<and> map_of (import_environ Map.empty) ''debug'' = None)"
proof -
  have h1: "[''INDEX_DEBUG'' \<mapsto> ''on''] ''INDEX_DEBUG'' = Some ''on''"
    by simp
  have h2: "[''INDEX_DEBUG'' \<mapsto> ''off''] ''INDEX_DEBUG'' = Some ''off''
            \<and> ''off'' \<noteq> [] \<and> ''off'' \<noteq> ''on'' \<and> ''off'' \<noteq> ''True''"
    by simp
  have h3: "(Map.empty :: string \<rightharpoonup> string) ''INDEX_DEBUG'' = None"
    by simp
  from C6_index_debug [of "[''INDEX_DEBUG'' \<mapsto> ''on'']"]
  have "[''INDEX_DEBUG'' \<mapsto> ''on''] ''INDEX_DEBUG'' = Some ''on''
          \<or> [''INDEX_DEBUG'' \<mapsto> ''on''] ''INDEX_DEBUG'' = Some ''True'' \<longrightarrow>
        map_of (import_environ [''INDEX_DEBUG'' \<mapsto> ''on'']) ''debug'' = Some (VBool True)"
    by (elim conjE)
  with h1 have r1: "map_of (import_environ [''INDEX_DEBUG'' \<mapsto> ''on'']) ''debug''
                      = Some (VBool True)"
    by blast
  from C6_index_debug [of "[''INDEX_DEBUG'' \<mapsto> ''off'']"]
  have "\<forall>s. [''INDEX_DEBUG'' \<mapsto> ''off''] ''INDEX_DEBUG'' = Some s
              \<and> s \<noteq> [] \<and> s \<noteq> ''on'' \<and> s \<noteq> ''True'' \<longrightarrow>
        map_of (import_environ [''INDEX_DEBUG'' \<mapsto> ''off'']) ''debug'' = Some (VBool False)"
    by (elim conjE)
  with h2 have r2: "map_of (import_environ [''INDEX_DEBUG'' \<mapsto> ''off'']) ''debug''
                      = Some (VBool False)"
    by blast
  from C6_index_debug [of "Map.empty"]
  have "(Map.empty :: string \<rightharpoonup> string) ''INDEX_DEBUG'' = None \<longrightarrow>
        map_of (import_environ Map.empty) ''debug'' = None"
    by (elim conjE)
  with h3 have r3: "map_of (import_environ Map.empty) ''debug'' = None"
    by (rule rev_mp)
  from h1 h2 h3 r1 r2 r3 show ?thesis
    by (intro conjI) (elim conjE, assumption)+
qed

text \<open>
  The claim as written names the token \<^verbatim>\<open>"true"\<close>. With \<^verbatim>\<open>INDEX_DEBUG=true\<close> the overlay is
  \<^verbatim>\<open>{debug: False}\<close>, and the configuration built from it has the flag off.
\<close>

theorem C6_counterexample:
  "import_environ [''INDEX_DEBUG'' \<mapsto> ''true''] = [(''debug'', VBool False)]
   \<and> map_of (fst (Config_update [] (import_environ [''INDEX_DEBUG'' \<mapsto> ''true'']))) ''DEBUG''
       = Some (VBool False)"
  by code_simp

section \<open>The converted keys\<close>

lemma upper_ALLOWED_HOSTS: "upper ''ALLOWED_HOSTS'' = ''ALLOWED_HOSTS''"
  by code_simp


lemma Config_setitem_allowed_hosts:
  assumes "upper key = ''ALLOWED_HOSTS''" and "py_list v = Inr xs"
  shows "Config_setitem self key v =
           (dict_set self ''ALLOWED_HOSTS'' (VList (xs @ [VStr ''testserver''])), None)"
  by (simp add: Config_setitem_def Let_def assms upper_ALLOWED_HOSTS)

text \<open>
  Claim C7. For every value \<open>v\<close> that \<^verbatim>\<open>list\<close> accepts, a list or a tuple above all, with
  the elements \<open>xs\<close>, and every spelling of the key \<^verbatim>\<open>ALLOWED_HOSTS\<close>: the assignment raises
  nothing and stores the list of \<open>xs\<close> followed by \<^verbatim>\<open>"testserver"\<close>, so every element of \<open>v\<close>
  and \<^verbatim>\<open>"testserver"\<close> are in the stored value. In particular \<^verbatim>\<open>["example.com"]\<close> is stored
  as \<^verbatim>\<open>["example.com", "testserver"]\<close>.
\<close>

theorem C7_allowed_hosts:
  assumes "case_variant key ''ALLOWED_HOSTS''" and "py_list v = Inr xs"
  shows "Config_setitem self key v =
           (dict_set self ''ALLOWED_HOSTS'' (VList (xs @ [VStr ''testserver''])), None)
       \<and> UpperDict_getitem (fst (Config_setitem self key v)) key =
           Inr (VList (xs @ [VStr ''testserver'']))
       \<and> (\<forall>x \<in> set xs. x \<in> set (xs @ [VStr ''testserver'']))
       \<and> VStr ''testserver'' \<in> set (xs @ [VStr ''testserver''])
       \<and> py_list (VList xs) = Inr xs \<and> py_list (VTuple xs) = Inr xs
       \<and> Config_setitem self ''ALLOWED_HOSTS'' (VList [VStr ''example.com'']) =
           (dict_set self ''ALLOWED_HOSTS'' (VList [VStr ''example.com'', VStr ''testserver'']),
            None)"
proof -
  have u: "upper key = ''ALLOWED_HOSTS''"
    using case_variant_upper [OF assms(1)] by (simp add: upper_ALLOWED_HOSTS)
  have a: "Config_setitem self key v =
           (dict_set self ''ALLOWED_HOSTS'' (VList (xs @ [VStr ''testserver''])), None)"
    by (rule Config_setitem_allowed_hosts [OF u assms(2)])
  have b: "UpperDict_getitem (fst (Config_setitem self key v)) key =
           Inr (VList (xs @ [VStr ''testserver'']))"
    unfolding a by (simp add: UpperDict_getitem_def u map_of_dict_set_same)
  have c: "\<forall>x \<in> set xs. x \<in> set (xs @ [VStr ''testserver''])"
    by simp
  have d: "VStr ''testserver'' \<in> set (xs @ [VStr ''testserver''])"
    by simp
  have e: "py_list (VList xs) = Inr xs" and f: "py_list (VTuple xs) = Inr xs"
    by simp_all
  have "py_list (VList [VStr ''example.com'']) = Inr [VStr ''example.com'']"
    by simp
  from Config_setitem_allowed_hosts [OF upper_ALLOWED_HOSTS this, of self]
  have g: "Config_setitem self ''ALLOWED_HOSTS'' (VList [VStr ''example.com'']) =
           (dict_set self ''ALLOWED_HOSTS'' (VList [VStr ''example.com'', VStr ''testserver'']),
            None)"
    by simp
  from a b c d e f g show ?thesis
    by (intro conjI)
qed

theorem C7_witness:
  "case_variant ''allowed_Hosts'' ''ALLOWED_HOSTS''
   \<and> py_list (VTuple [VStr ''example.com'']) = Inr [VStr ''example.com'']
   \<and> UpperDict_getitem
        (fst (Config_setitem [] ''allowed_Hosts'' (VTuple [VStr ''example.com''])))
        ''allowed_Hosts''
     = Inr (VList ([VStr ''example.com''] @ [VStr ''testserver'']))"
proof -
  have h: "case_variant ''allowed_Hosts'' ''ALLOWED_HOSTS''"
    by code_simp
  have l: "py_list (VTuple [VStr ''example.com'']) = Inr [VStr ''example.com'']"
    by simp
  from C7_allowed_hosts [OF h l, of "[]"]
  have "UpperDict_getitem
        (fst (Config_setitem [] ''allowed_Hosts'' (VTuple [VStr ''example.com''])))
        ''allowed_Hosts''
     = Inr (VList ([VStr ''example.com''] @ [VStr ''testserver'']))"
    by (elim conjE)
  with h l show ?thesis
    by (intro conjI)
qed








end
